theory Spec2Isabelle
  imports Main
begin

section \<open>Data model of index.js\<close>

text \<open>
  The application is one Express program: a collection of user documents, a
  session per client, two middleware functions and eleven routes.  The
  libraries it calls (the MongoDB driver, bcrypt, Joi, express-session) are not
  part of the program; what they answer during one request is collected in the
  record \<open>env\<close> below, so that every statement proved about a route holds
  whatever the libraries answer.
\<close>

type_synonym oid = nat
  \<comment> \<open>an ObjectId, the value of a document's \<open>_id\<close>\<close>

type_synonym sid = string
  \<comment> \<open>the session token carried by the client's cookie\<close>

text \<open>A document of \<open>usersCollection\<close>, as \<open>insertOne\<close> writes it (line 102).\<close>

record user =
  doc_id :: oid
  name :: string
  email :: string
  password :: string
  user_type :: string

text \<open>
  \<open>req.session\<close>.  A property the program has not assigned is undefined:
  \<open>None\<close> for the three data properties, \<open>False\<close> for the flag, which
  the program only ever tests for truthiness and only ever sets to \<open>true\<close>.
\<close>

record session =
  authenticated :: bool
  session_name :: "string option"
  session_user_type :: "string option"
  user_id :: "oid option"

definition empty_session :: session where
  "empty_session =
     \<lparr>authenticated = False, session_name = None, session_user_type = None, user_id = None\<rparr>"

text \<open>The values handed to a view, and what a response consists of.\<close>

datatype jsval =
    JUndefined
  | JNull
  | JStr string
  | JSession session
  | JUsers "user list"

datatype sent = Render string "(string \<times> jsval) list" | Redirect string

datatype error = StorageError | HashError | BSONError | TypeError

text \<open>
  One request on its way through the middleware chain: the parts of \<open>req\<close>
  and \<open>res\<close> that the program reads or writes, together with the collection
  the handlers work on.  \<open>req_session\<close> is \<open>None\<close> once
  \<open>req.session.destroy()\<close> has run.
\<close>

record exch =
  body_name :: "string option"
  body_email :: "string option"
  body_password :: "string option"
  params_id :: string
  req_session :: "session option"
  permissionDenied :: bool
  statusCode :: nat
  response :: "sent option"
  usersCollection :: "user list"

text \<open>What the libraries answer during one request.\<close>

record env =
  email_ok :: "string \<Rightarrow> bool"
    \<comment> \<open>Joi's test for an email-shaped string\<close>
  bcrypt_hash :: "string \<Rightarrow> nat \<Rightarrow> string option"
    \<comment> \<open>\<open>bcrypt.hash(data, rounds)\<close>; \<open>None\<close> when the promise rejects\<close>
  bcrypt_compare :: "string option \<Rightarrow> string \<Rightarrow> bool option"
    \<comment> \<open>\<open>bcrypt.compare(data, hash)\<close>; \<open>None\<close> when the promise rejects\<close>
  parse_ObjectId :: "string \<Rightarrow> oid option"
    \<comment> \<open>\<open>new ObjectId(s)\<close>; \<open>None\<close> when the constructor throws\<close>
  new_ObjectId :: oid
    \<comment> \<open>the \<open>_id\<close> the driver gives to an inserted document\<close>
  findOne_ok :: bool
  insertOne_ok :: bool
  find_ok :: bool
  updateOne_ok :: bool
    \<comment> \<open>whether a call of that kind reaches the database during this request\<close>

datatype outcome = Responded exch | Thrown error exch
  \<comment> \<open>\<open>Thrown\<close>: an exception left the handler; no response was written by it\<close>

datatype flow = Next exch | Stop outcome

section \<open>The response object\<close>

definition render :: "string \<Rightarrow> (string \<times> jsval) list \<Rightarrow> exch \<Rightarrow> exch" where
  "render view locals x = x\<lparr>response := Some (Render view locals)\<rparr>"

definition redirect :: "string \<Rightarrow> exch \<Rightarrow> exch" where
  "redirect url x = x\<lparr>statusCode := 302, response := Some (Redirect url)\<rparr>"

definition status :: "nat \<Rightarrow> exch \<Rightarrow> exch" where
  "status code x = x\<lparr>statusCode := code\<rparr>"

definition js_str :: "string option \<Rightarrow> jsval" where
  "js_str v = (case v of None \<Rightarrow> JUndefined | Some s \<Rightarrow> JStr s)"

definition js_session :: "session option \<Rightarrow> jsval" where
  "js_session v = (case v of None \<Rightarrow> JUndefined | Some s \<Rightarrow> JSession s)"

section \<open>The collection\<close>

definition findOne :: "env \<Rightarrow> user list \<Rightarrow> string option \<Rightarrow> error + user option" where
  "findOne e us key =
     (if \<not> findOne_ok e then Inl StorageError
      else Inr (case key of
                  None \<Rightarrow> None
                | Some a \<Rightarrow> find (\<lambda>u. email u = a) us))"

definition insertOne ::
  "env \<Rightarrow> user list \<Rightarrow> string \<Rightarrow> string \<Rightarrow> string \<Rightarrow> string \<Rightarrow> error + user list" where
  "insertOne e us n a h t =
     (if insertOne_ok e \<and> new_ObjectId e \<notin> doc_id ` set us
      then Inr (us @ [\<lparr>doc_id = new_ObjectId e, name = n, email = a,
                        password = h, user_type = t\<rparr>])
      else Inl StorageError)"

definition find_toArray :: "env \<Rightarrow> user list \<Rightarrow> error + user list" where
  "find_toArray e us = (if \<not> find_ok e then Inl StorageError else Inr us)"

fun set_user_type :: "oid \<Rightarrow> string \<Rightarrow> user list \<Rightarrow> user list" where
  "set_user_type i t [] = []"
| "set_user_type i t (u # us) =
     (if doc_id u = i then u\<lparr>user_type := t\<rparr> # us else u # set_user_type i t us)"

definition updateOne :: "env \<Rightarrow> user list \<Rightarrow> oid \<Rightarrow> string \<Rightarrow> error + user list" where
  "updateOne e us i t =
     (if \<not> updateOne_ok e then Inl StorageError else Inr (set_user_type i t us))"

definition find_by_id :: "user list \<Rightarrow> oid \<Rightarrow> user option" where
  "find_by_id us i = find (\<lambda>u. doc_id u = i) us"

section \<open>Middleware functions\<close>

definition isAuthenticated :: "exch \<Rightarrow> flow" where
  "isAuthenticated x =
     (case req_session x of
        None \<Rightarrow> Stop (Thrown TypeError x)
      | Some s \<Rightarrow>
          if authenticated s then Next x
          else Stop (Responded (redirect ''/login'' x)))"

definition isAdmin :: "exch \<Rightarrow> flow" where
  "isAdmin x =
     (case req_session x of
        None \<Rightarrow> Stop (Thrown TypeError x)
      | Some s \<Rightarrow>
          if session_user_type s = Some ''admin'' then Next x
          else Next (status 403 (x\<lparr>permissionDenied := True\<rparr>)))"

text \<open>
  \<open>app.get(path, m1, m2, handler)\<close>: each middleware either calls \<open>next()\<close>
  or ends the request; the handler runs only if all of them called \<open>next()\<close>.
\<close>

fun run_chain :: "(exch \<Rightarrow> flow) list \<Rightarrow> (exch \<Rightarrow> outcome) \<Rightarrow> exch \<Rightarrow> outcome" where
  "run_chain [] handler x = handler x"
| "run_chain (m # ms) handler x =
     (case m x of
        Next x' \<Rightarrow> run_chain ms handler x'
      | Stop r \<Rightarrow> r)"

section \<open>Validation of the signup form\<close>

text \<open>
  The schema of lines 72 to 76: three keys, each \<open>Joi.string().required()\<close>,
  the second also \<open>.email()\<close>.  Joi checks the keys in the order of the
  schema and stops at the first error, so \<open>error.details[0].message\<close> is the
  message of the first key that fails.  A required string may be neither
  undefined nor empty.  When no key fails the three values are strings, the
  ones line 88 takes out of \<open>req.body\<close>.
\<close>

definition quoted :: "string \<Rightarrow> string" where
  "quoted label = CHR 0x22 # label @ [CHR 0x22]"

definition string_required :: "string \<Rightarrow> string option \<Rightarrow> string + string" where
  "string_required label v =
     (case v of
        None \<Rightarrow> Inl (quoted label @ '' is required'')
      | Some s \<Rightarrow>
          if s = [] then Inl (quoted label @ '' is not allowed to be empty'')
          else Inr s)"

definition schema_validate :: "env \<Rightarrow> exch \<Rightarrow> string + (string \<times> string \<times> string)" where
  "schema_validate e x =
     (case string_required ''name'' (body_name x) of
        Inl msg \<Rightarrow> Inl msg
      | Inr n \<Rightarrow>
          (case string_required ''email'' (body_email x) of
             Inl msg \<Rightarrow> Inl msg
           | Inr a \<Rightarrow>
               if \<not> email_ok e a then Inl (quoted ''email'' @ '' must be a valid email'')
               else
                 (case string_required ''password'' (body_password x) of
                    Inl msg \<Rightarrow> Inl msg
                  | Inr p \<Rightarrow> Inr (n, a, p))))"

section \<open>Routes\<close>

definition get_home :: "exch \<Rightarrow> outcome" where
  "get_home x =
     Responded (render ''index''
       [(''session'', js_session (req_session x)), (''title'', JStr ''Home'')] x)"

definition get_signup :: "exch \<Rightarrow> outcome" where
  "get_signup x =
     Responded (render ''signup''
       [(''title'', JStr ''Sign Up''), (''session'', js_session (req_session x)),
        (''error'', JNull)] x)"

definition signup_error :: "string \<Rightarrow> exch \<Rightarrow> exch" where
  "signup_error msg x =
     render ''signup''
       [(''title'', JStr ''Sign Up''), (''session'', js_session (req_session x)),
        (''error'', JStr msg)] x"

text \<open>
  \<open>POST /signup\<close> is an async function without a \<open>try\<close>: a rejected
  \<open>await\<close> leaves the handler.
\<close>

definition post_signup :: "env \<Rightarrow> exch \<Rightarrow> outcome" where
  "post_signup e x =
     (case schema_validate e x of
        Inl msg \<Rightarrow> Responded (signup_error msg x)
      | Inr (n, a, p) \<Rightarrow>
          (case findOne e (usersCollection x) (Some a) of
             Inl err \<Rightarrow> Thrown err x
           | Inr (Some existingUser) \<Rightarrow> Responded (signup_error ''Email already in use'' x)
           | Inr None \<Rightarrow>
               (case bcrypt_hash e p 12 of
                  None \<Rightarrow> Thrown HashError x
                | Some hashed \<Rightarrow>
                    (case insertOne e (usersCollection x) n a hashed ''user'' of
                       Inl err \<Rightarrow> Thrown err x
                     | Inr us \<Rightarrow>
                         (case req_session x of
                            None \<Rightarrow> Thrown TypeError (x\<lparr>usersCollection := us\<rparr>)
                          | Some s \<Rightarrow>
                              Responded (redirect ''/members''
                                (x\<lparr>usersCollection := us,
                                   req_session := Some (s\<lparr>authenticated := True,
                                     session_name := Some n,
                                     session_user_type := Some ''user''\<rparr>)\<rparr>)))))))"

definition get_login :: "exch \<Rightarrow> outcome" where
  "get_login x =
     Responded (render ''login''
       [(''title'', JStr ''Login''), (''session'', js_session (req_session x)),
        (''email'', JStr []), (''error'', JStr [])] x)"

definition login_error :: "string \<Rightarrow> exch \<Rightarrow> exch" where
  "login_error msg x =
     render ''login''
       [(''title'', JStr ''Login''), (''session'', js_session (req_session x)),
        (''error'', JStr msg), (''email'', js_str (body_email x))] x"

text \<open>
  \<open>POST /login\<close>: the whole body is inside \<open>try\<close>, and the \<open>catch\<close>
  renders the login form, so every exception becomes that response.
\<close>

definition post_login :: "env \<Rightarrow> exch \<Rightarrow> outcome" where
  "post_login e x =
     (case findOne e (usersCollection x) (body_email x) of
        Inl err \<Rightarrow> Responded (login_error ''Something went wrong. Try again.'' x)
      | Inr None \<Rightarrow> Responded (login_error ''Email not found'' x)
      | Inr (Some u) \<Rightarrow>
          (case bcrypt_compare e (body_password x) (password u) of
             None \<Rightarrow> Responded (login_error ''Something went wrong. Try again.'' x)
           | Some False \<Rightarrow> Responded (login_error ''Incorrect password'' x)
           | Some True \<Rightarrow>
               (case req_session x of
                  None \<Rightarrow> Responded (login_error ''Something went wrong. Try again.'' x)
                | Some s \<Rightarrow>
                    Responded (redirect ''/members''
                      (x\<lparr>req_session := Some (s\<lparr>authenticated := True,
                           session_name := Some (name u),
                           session_user_type := Some (user_type u),
                           user_id := Some (doc_id u)\<rparr>)\<rparr>)))))"

definition get_logout :: "exch \<Rightarrow> outcome" where
  "get_logout x =
     (case req_session x of
        None \<Rightarrow> Thrown TypeError x
      | Some s \<Rightarrow> Responded (redirect ''/'' (x\<lparr>req_session := None\<rparr>)))"

definition get_members :: "exch \<Rightarrow> outcome" where
  "get_members x =
     (case req_session x of
        None \<Rightarrow> Thrown TypeError x
      | Some s \<Rightarrow>
          Responded (render ''members''
            [(''name'', js_str (session_name s)), (''session'', JSession s),
             (''title'', JStr ''Members'')] x))"

definition get_admin :: "env \<Rightarrow> exch \<Rightarrow> outcome" where
  "get_admin e x =
     (if permissionDenied x then
        Responded (render ''admin''
          [(''users'', JUsers []), (''session'', js_session (req_session x)),
           (''title'', JStr ''Admin''),
           (''error'', JStr ''403: You do not have permission to view this page.'')] x)
      else
        (case find_toArray e (usersCollection x) of
           Inl err \<Rightarrow> Thrown err x
         | Inr users \<Rightarrow>
             Responded (render ''admin''
               [(''users'', JUsers users), (''session'', js_session (req_session x)),
                (''title'', JStr ''Admin'')] x)))"

definition get_promote :: "env \<Rightarrow> exch \<Rightarrow> outcome" where
  "get_promote e x =
     (case parse_ObjectId e (params_id x) of
        None \<Rightarrow> Thrown BSONError x
      | Some i \<Rightarrow>
          (case updateOne e (usersCollection x) i ''admin'' of
             Inl err \<Rightarrow> Thrown err x
           | Inr us \<Rightarrow> Responded (redirect ''/admin'' (x\<lparr>usersCollection := us\<rparr>))))"

definition get_demote :: "env \<Rightarrow> exch \<Rightarrow> outcome" where
  "get_demote e x =
     (case parse_ObjectId e (params_id x) of
        None \<Rightarrow> Thrown BSONError x
      | Some i \<Rightarrow>
          (case updateOne e (usersCollection x) i ''user'' of
             Inl err \<Rightarrow> Thrown err x
           | Inr us \<Rightarrow> Responded (redirect ''/admin'' (x\<lparr>usersCollection := us\<rparr>))))"

definition not_found :: "exch \<Rightarrow> outcome" where
  "not_found x =
     Responded (render ''404''
       [(''title'', JStr ''Page Not Found''), (''session'', js_session (req_session x))]
       (status 404 x))"

text \<open>The routing table, in the order of the file.\<close>

datatype route =
    GET_root | GET_signup | POST_signup | GET_login | POST_login | GET_logout
  | GET_members | GET_admin | GET_promote | GET_demote | Unmatched

fun app :: "env \<Rightarrow> route \<Rightarrow> exch \<Rightarrow> outcome" where
  "app e GET_root x = get_home x"
| "app e GET_signup x = get_signup x"
| "app e POST_signup x = post_signup e x"
| "app e GET_login x = get_login x"
| "app e POST_login x = post_login e x"
| "app e GET_logout x = get_logout x"
| "app e GET_members x = run_chain [isAuthenticated] get_members x"
| "app e GET_admin x = run_chain [isAuthenticated, isAdmin] (get_admin e) x"
| "app e GET_promote x = run_chain [isAuthenticated, isAdmin] (get_promote e) x"
| "app e GET_demote x = run_chain [isAuthenticated, isAdmin] (get_demote e) x"
| "app e Unmatched x = not_found x"

section \<open>The server: collection and session store across requests\<close>

text \<open>
  The program only installs the session middleware (lines 17 to 21) and calls
  \<open>req.session.destroy()\<close>; the store itself belongs to express-session and
  is described by section 4.3 of the specification: a mapping from the token of
  the client's cookie to the session state.  The token under which a new
  session is filed is taken to be the one the client goes on presenting.
\<close>

record server =
  users :: "user list"
  sessions :: "sid \<rightharpoonup> session"

record form =
  form_name :: "string option"
  form_email :: "string option"
  form_password :: "string option"
  form_id :: string

text \<open>
  Modelled from the spec: \<open>get(token)\<close> of the session store, whose code is
  express-session's.  It answers the state stored under the token, and the
  unauthenticated default state when nothing is stored under it.
\<close>

definition session_get :: "(sid \<rightharpoonup> session) \<Rightarrow> sid \<Rightarrow> session" where
  "session_get store t = (case store t of None \<Rightarrow> empty_session | Some s \<Rightarrow> s)"

text \<open>
  Modelled from the spec: what the session store does at the end of a request,
  whose code is express-session's.  A session that was destroyed is removed
  (\<open>destroy(token)\<close> removes all session state); any other is stored under
  its token (\<open>saveUninitialized: true\<close>).
\<close>

definition session_put :: "(sid \<rightharpoonup> session) \<Rightarrow> sid \<Rightarrow> session option \<Rightarrow> (sid \<rightharpoonup> session)" where
  "session_put store t v = (case v of None \<Rightarrow> store(t := None) | Some s \<Rightarrow> store(t \<mapsto> s))"

text \<open>The request as the first middleware sees it: status 200, nothing sent.\<close>

definition incoming :: "server \<Rightarrow> sid \<Rightarrow> form \<Rightarrow> exch" where
  "incoming sv t f =
     \<lparr>body_name = form_name f, body_email = form_email f,
      body_password = form_password f, params_id = form_id f,
      req_session = Some (session_get (sessions sv) t),
      permissionDenied = False, statusCode = 200, response = None,
      usersCollection = users sv\<rparr>"

text \<open>
  One request against the server.  When an exception leaves the handler no
  response is written, so the session is not stored.
\<close>

definition serve :: "env \<Rightarrow> server \<Rightarrow> sid \<Rightarrow> route \<Rightarrow> form \<Rightarrow> server \<times> outcome" where
  "serve e sv t r f =
     (case app e r (incoming sv t f) of
        Responded x \<Rightarrow>
          (\<lparr>users = usersCollection x, sessions = session_put (sessions sv) t (req_session x)\<rparr>,
           Responded x)
      | Thrown err x \<Rightarrow>
          (\<lparr>users = usersCollection x, sessions = sessions sv\<rparr>, Thrown err x))"

text \<open>What the client receives: the status and what was sent, if anything was.\<close>

definition client_sees :: "outcome \<Rightarrow> (nat \<times> sent) option" where
  "client_sees r =
     (case r of
        Responded x \<Rightarrow> (case response x of None \<Rightarrow> None | Some b \<Rightarrow> Some (statusCode x, b))
      | Thrown err x \<Rightarrow> None)"

section \<open>Example data\<close>

text \<open>
  An environment in which every library call succeeds.  Its hash is a stand-in
  (a mark in front of the plaintext): the examples need some hash that
  \<open>bcrypt_compare\<close> accepts, and no theorem below depends on which.
\<close>

definition test_env :: env where
  "test_env =
     \<lparr>email_ok = (\<lambda>s. CHR ''@'' \<in> set s),
      bcrypt_hash = (\<lambda>p r. Some (''#'' @ p)),
      bcrypt_compare = (\<lambda>d h. case d of None \<Rightarrow> None | Some p \<Rightarrow> Some (h = ''#'' @ p)),
      parse_ObjectId = (\<lambda>s. if s = ''1'' then Some 1 else if s = ''2'' then Some 2 else None),
      new_ObjectId = 3,
      findOne_ok = True, insertOne_ok = True, find_ok = True, updateOne_ok = True\<rparr>"

definition alice :: user where
  "alice = \<lparr>doc_id = 1, name = ''A'', email = ''a@x.com'', password = ''#pw123'',
             user_type = ''user''\<rparr>"

definition root :: user where
  "root = \<lparr>doc_id = 2, name = ''R'', email = ''r@x.com'', password = ''#root'',
            user_type = ''admin''\<rparr>"

definition bob :: user where
  "bob = \<lparr>doc_id = 3, name = ''B'', email = ''b@x.com'', password = ''#pw456'',
           user_type = ''user''\<rparr>"

definition alice_session :: session where
  "alice_session =
     \<lparr>authenticated = True, session_name = Some ''A'', session_user_type = Some ''user'',
      user_id = Some 1\<rparr>"

definition root_session :: session where
  "root_session =
     \<lparr>authenticated = True, session_name = Some ''R'', session_user_type = Some ''admin'',
      user_id = Some 2\<rparr>"

text \<open>
  Two users and nobody logged in; then the same server after Alice has logged
  in with the token \<open>tok\<close> and the administrator with the token \<open>adm\<close>.
\<close>

definition server_start :: server where
  "server_start = \<lparr>users = [alice, root], sessions = Map.empty\<rparr>"

definition server1 :: server where
  "server1 = \<lparr>users = [alice, root],
               sessions = [''tok'' \<mapsto> alice_session, ''adm'' \<mapsto> root_session]\<rparr>"

definition alice_login_form :: form where
  "alice_login_form = \<lparr>form_name = None, form_email = Some ''a@x.com'',
      form_password = Some ''pw123'', form_id = []\<rparr>"

definition root_login_form :: form where
  "root_login_form = \<lparr>form_name = None, form_email = Some ''r@x.com'',
      form_password = Some ''root'', form_id = []\<rparr>"

definition id1_form :: form where
  "id1_form = \<lparr>form_name = None, form_email = None, form_password = None, form_id = ''1''\<rparr>"

definition id2_form :: form where
  "id2_form = \<lparr>form_name = None, form_email = None, form_password = None, form_id = ''2''\<rparr>"

definition fresh_form :: form where
  "fresh_form = \<lparr>form_name = Some ''B'', form_email = Some ''b@x.com'',
                  form_password = Some ''pw456'', form_id = []\<rparr>"

definition dup_form :: form where
  "dup_form = \<lparr>form_name = Some ''A2'', form_email = Some ''a@x.com'',
                form_password = Some ''other'', form_id = []\<rparr>"

definition dup_noname_form :: form where
  "dup_noname_form = \<lparr>form_name = None, form_email = Some ''a@x.com'',
                       form_password = Some ''pw123'', form_id = []\<rparr>"

section \<open>Facts about the model\<close>

lemmas response_defs = render_def redirect_def status_def js_str_def js_session_def
  signup_error_def login_error_def client_sees_def

lemmas gate_defs = isAuthenticated_def isAdmin_def

lemmas handler_defs = get_home_def get_signup_def post_signup_def get_login_def
  post_login_def get_logout_def get_members_def get_admin_def get_promote_def
  get_demote_def not_found_def

lemmas collection_defs = findOne_def insertOne_def find_toArray_def updateOne_def
  find_by_id_def

lemmas validate_defs = schema_validate_def string_required_def quoted_def

lemmas server_defs = serve_def incoming_def session_get_def session_put_def
  empty_session_def

lemmas example_defs = test_env_def alice_def root_def bob_def alice_session_def
  root_session_def server_start_def server1_def alice_login_form_def root_login_form_def
  id1_form_def id2_form_def fresh_form_def dup_form_def dup_noname_form_def

text \<open>
  The server of the examples is reachable: it is what two logins make of
  \<open>server_start\<close>.
\<close>

lemma server1_after_logins:
  "fst (serve test_env
         (fst (serve test_env server_start ''tok'' POST_login alice_login_form))
         ''adm'' POST_login root_login_form) = server1"
  by (simp add: response_defs handler_defs collection_defs server_defs example_defs)

text \<open>A form that passes the schema has three non-empty strings, the second email-shaped.\<close>

lemma schema_validate_Inr:
  "schema_validate e x = Inr (n, a, p) \<Longrightarrow>
     body_name x = Some n \<and> body_email x = Some a \<and> body_password x = Some p \<and>
     n \<noteq> [] \<and> a \<noteq> [] \<and> p \<noteq> [] \<and> email_ok e a"
  by (auto simp: schema_validate_def string_required_def
      split: option.splits sum.splits if_splits)

text \<open>\<open>updateOne\<close> changes the role of the document found under the id, and no other.\<close>

lemma find_by_id_set_user_type:
  "find_by_id us i = Some u \<Longrightarrow>
     find_by_id (set_user_type i t us) i = Some (u\<lparr>user_type := t\<rparr>)"
  by (induction us) (auto simp: find_by_id_def)

lemma find_by_id_set_user_type_other:
  "j \<noteq> i \<Longrightarrow> find_by_id (set_user_type i t us) j = find_by_id us j"
  by (induction us) (auto simp: find_by_id_def)

lemma length_set_user_type:
  "length (set_user_type i t us) = length us"
  by (induction us) auto

text \<open>
  The two role routes behind their gates.  \<open>isAdmin\<close> calls \<open>next()\<close> on both
  of its paths and neither handler reads \<open>req.permissionDenied\<close>, so for an
  authenticated session the handler runs whatever the role.
\<close>

lemma gates_let_every_role_through:
  assumes "req_session x = Some s" and "authenticated s"
  shows "app e GET_promote x =
           get_promote e (if session_user_type s = Some ''admin'' then x
                          else status 403 (x\<lparr>permissionDenied := True\<rparr>))"
    and "app e GET_demote x =
           get_demote e (if session_user_type s = Some ''admin'' then x
                         else status 403 (x\<lparr>permissionDenied := True\<rparr>))"
  using assms by (simp_all add: gate_defs)

lemma serve_promote:
  assumes "authenticated (session_get (sessions sv) t)"
    and "parse_ObjectId e (form_id f) = Some i" and "updateOne_ok e"
  shows "fst (serve e sv t GET_promote f) =
           \<lparr>users = set_user_type i ''admin'' (users sv),
            sessions = (sessions sv)(t \<mapsto> session_get (sessions sv) t)\<rparr>"
    and "client_sees (snd (serve e sv t GET_promote f)) = Some (302, Redirect ''/admin'')"
  using assms
  by (simp_all add: serve_def incoming_def session_put_def gate_defs get_promote_def
      updateOne_def response_defs)

lemma serve_demote:
  assumes "authenticated (session_get (sessions sv) t)"
    and "parse_ObjectId e (form_id f) = Some i" and "updateOne_ok e"
  shows "fst (serve e sv t GET_demote f) =
           \<lparr>users = set_user_type i ''user'' (users sv),
            sessions = (sessions sv)(t \<mapsto> session_get (sessions sv) t)\<rparr>"
    and "client_sees (snd (serve e sv t GET_demote f)) = Some (302, Redirect ''/admin'')"
  using assms
  by (simp_all add: serve_def incoming_def session_put_def gate_defs get_demote_def
      updateOne_def response_defs)

lemma session_get_put_same:
  "session_get (store(t \<mapsto> session_get store t)) t' = session_get store t'"
  by (simp add: session_get_def)

text \<open>The role routes never write a session: every stored session stays as it is.\<close>

lemma sessions_serve_role_route:
  assumes "r = GET_promote \<or> r = GET_demote" and "sessions sv t' = Some s"
  shows "sessions (fst (serve e sv t r f)) t' = Some s"
  using assms
  by (auto simp: serve_def incoming_def session_put_def session_get_def gate_defs
      get_promote_def get_demote_def updateOne_def response_defs
      split: option.splits sum.splits)

text \<open>
  \<open>POST /login\<close> always answers; when the lookup or the comparison fails it
  answers with the generic message.  A successful login copies name, role and
  id from the document found.
\<close>

lemma post_login_always_responds:
  "\<exists>x'. post_login e x = Responded x' \<and> response x' \<noteq> None"
  by (simp add: post_login_def response_defs split: sum.splits option.splits bool.splits)

lemma post_login_storage_failure:
  "\<not> findOne_ok e \<Longrightarrow>
     post_login e x = Responded (login_error ''Something went wrong. Try again.'' x)"
  by (simp add: post_login_def findOne_def)

lemma post_login_snapshot:
  assumes "findOne e (usersCollection x) (body_email x) = Inr (Some u)"
    and "bcrypt_compare e (body_password x) (password u) = Some True"
    and "req_session x = Some s"
  shows "post_login e x =
           Responded (redirect ''/members''
             (x\<lparr>req_session := Some (s\<lparr>authenticated := True,
                  session_name := Some (name u),
                  session_user_type := Some (user_type u),
                  user_id := Some (doc_id u)\<rparr>)\<rparr>))"
  using assms by (simp add: post_login_def)

text \<open>What a successful signup and a change of \<open>user_id\<close> look like.\<close>

lemma post_signup_success:
  assumes "post_signup e x = Responded x'" and "response x' = Some (Redirect ''/members'')"
    and "req_session x = Some s"
  shows "\<exists>n. body_name x = Some n \<and>
           req_session x' = Some (s\<lparr>authenticated := True, session_name := Some n,
                                    session_user_type := Some ''user''\<rparr>)"
  using assms
  by (auto simp: post_signup_def response_defs
      split: sum.splits option.splits prod.splits dest: schema_validate_Inr)

lemma user_id_written_by_login_only:
  assumes "app e r x = Responded y" and "req_session x = Some s"
    and "req_session y = Some s'" and "user_id s' \<noteq> user_id s"
  shows "r = POST_login \<and> response y = Some (Redirect ''/members'')"
proof (cases r)
  case POST_signup
  with assms show ?thesis
    by (auto simp: post_signup_def response_defs
        split: sum.splits option.splits prod.splits)
next
  case POST_login
  with assms show ?thesis
    by (auto simp: post_login_def response_defs
        split: sum.splits option.splits bool.splits)
qed (insert assms,
     auto simp: handler_defs gate_defs collection_defs response_defs
       split: sum.splits option.splits if_splits)

section \<open>The claims\<close>

text \<open>
  Claim C1, evaluated on the program.  The claim says that a session whose role
  is not admin gets the 403 page from \<open>GET /promote/:id\<close> and
  \<open>GET /demote/:id\<close> and that the role stored for the targeted user stays as
  it is.  Alice is logged in with the role user.  Her request
  \<open>GET /promote/1\<close> is answered by a redirect to \<open>/admin\<close> with status 302,
  and her own document now has the role admin; her request \<open>GET /demote/2\<close>
  takes the role admin away from the administrator.
\<close>

theorem non_admin_promote_changes_role:
  "session_get (sessions server1) ''tok'' = alice_session \<and>
   session_user_type alice_session = Some ''user'' \<and>
   client_sees (snd (serve test_env server1 ''tok'' GET_promote id1_form))
     = Some (302, Redirect ''/admin'') \<and>
   users (fst (serve test_env server1 ''tok'' GET_promote id1_form))
     = [alice\<lparr>user_type := ''admin''\<rparr>, root] \<and>
   client_sees (snd (serve test_env server1 ''tok'' GET_demote id2_form))
     = Some (302, Redirect ''/admin'') \<and>
   users (fst (serve test_env server1 ''tok'' GET_demote id2_form))
     = [alice, root\<lparr>user_type := ''user''\<rparr>]"
  by (simp add: response_defs gate_defs handler_defs collection_defs server_defs example_defs)

text \<open>
  Claim C2.  For an authenticated session whose role is not admin, \<open>isAdmin\<close>
  does not end the request: it sets \<open>permissionDenied\<close> and the status 403 and
  calls \<open>next()\<close>; \<open>GET /admin\<close> then renders the admin view with an empty
  list of users and the 403 message, under status 403, and does not redirect.
\<close>

theorem isAdmin_flags_and_admin_renders_403:
  assumes "req_session x = Some s" and "authenticated s"
    and "session_user_type s \<noteq> Some ''admin''"
  shows "isAdmin x = Next (status 403 (x\<lparr>permissionDenied := True\<rparr>)) \<and>
         app e GET_admin x =
           Responded (x\<lparr>permissionDenied := True, statusCode := 403,
             response := Some (Render ''admin''
               [(''users'', JUsers []), (''session'', JSession s), (''title'', JStr ''Admin''),
                (''error'', JStr ''403: You do not have permission to view this page.'')])\<rparr>)"
  using assms by (simp add: gate_defs get_admin_def response_defs)

theorem isAdmin_flags_and_admin_renders_403_witness:
  "req_session (incoming server1 ''tok'' id1_form) = Some alice_session \<and>
   authenticated alice_session \<and>
   session_user_type alice_session \<noteq> Some ''admin'' \<and>
   client_sees (app test_env GET_admin (incoming server1 ''tok'' id1_form)) =
     Some (403, Render ''admin''
          [(''users'', JUsers []), (''session'', JSession alice_session),
           (''title'', JStr ''Admin''),
           (''error'', JStr ''403: You do not have permission to view this page.'')])"
proof -
  have h1: "req_session (incoming server1 ''tok'' id1_form) = Some alice_session"
    by (simp add: server_defs server1_def)
  have h2: "authenticated alice_session"
    by (simp add: alice_session_def)
  have h3: "session_user_type alice_session \<noteq> Some ''admin''"
    by (simp add: alice_session_def)
  from isAdmin_flags_and_admin_renders_403 [OF h1 h2 h3, of test_env] h1 h2 h3
  show ?thesis by (simp add: client_sees_def)
qed

text \<open>
  Claim C3.  For a session that is not authenticated, \<open>isAuthenticated\<close> ends
  the request with a redirect to \<open>/login\<close>.  Whatever middleware and handler
  follow it in the chain, the outcome is that redirect applied to the request
  as it came in, so nothing after \<open>isAuthenticated\<close> has run: \<open>isAdmin\<close> has
  not set \<open>permissionDenied\<close> or the status 403.  This holds for the four
  gated routes.
\<close>

theorem unauthenticated_redirected_to_login:
  assumes "req_session x = Some s" and "\<not> authenticated s"
  shows "(\<forall>ms handler. run_chain (isAuthenticated # ms) handler x
            = Responded (redirect ''/login'' x)) \<and>
         app e GET_members x = Responded (redirect ''/login'' x) \<and>
         app e GET_admin x = Responded (redirect ''/login'' x) \<and>
         app e GET_promote x = Responded (redirect ''/login'' x) \<and>
         app e GET_demote x = Responded (redirect ''/login'' x) \<and>
         permissionDenied (redirect ''/login'' x) = permissionDenied x \<and>
         usersCollection (redirect ''/login'' x) = usersCollection x"
  using assms by (simp add: isAuthenticated_def redirect_def)

theorem unauthenticated_redirected_to_login_witness:
  "req_session (incoming server1 ''new'' id1_form) = Some empty_session \<and>
   \<not> authenticated empty_session \<and>
   app test_env GET_promote (incoming server1 ''new'' id1_form)
     = Responded (redirect ''/login'' (incoming server1 ''new'' id1_form)) \<and>
   client_sees (app test_env GET_admin (incoming server1 ''new'' id1_form))
     = Some (302, Redirect ''/login'')"
proof -
  have h1: "req_session (incoming server1 ''new'' id1_form) = Some empty_session"
    by (simp add: server_defs server1_def)
  have h2: "\<not> authenticated empty_session"
    by (simp add: empty_session_def)
  from unauthenticated_redirected_to_login [OF h1 h2, of test_env] h1 h2
  show ?thesis by (simp add: response_defs incoming_def)
qed

text \<open>
  Claim C4, as stated, fails.  It promises the duplicate-email error for every
  \<open>POST /signup\<close> with an identity that is in the collection.  The handler
  validates the form before it looks the email up: a form with Alice's email and
  no name is answered with Joi's message for the name.
\<close>

theorem signup_duplicate_counterexample:
  "findOne test_env (usersCollection (incoming server1 ''new'' dup_noname_form))
       (body_email (incoming server1 ''new'' dup_noname_form)) = Inr (Some alice) \<and>
   client_sees (app test_env POST_signup (incoming server1 ''new'' dup_noname_form))
     = Some (200, Render ''signup''
         [(''title'', JStr ''Sign Up''), (''session'', JSession empty_session),
          (''error'', JStr (CHR 0x22 # ''name'' @ [CHR 0x22] @ '' is required''))]) \<and>
   client_sees (app test_env POST_signup (incoming server1 ''new'' dup_noname_form))
     \<noteq> Some (200, Render ''signup''
         [(''title'', JStr ''Sign Up''), (''session'', JSession empty_session),
          (''error'', JStr ''Email already in use'')])"
  by (simp add: response_defs post_signup_def collection_defs validate_defs server_defs
      example_defs)

text \<open>
  Claim C4, amended.  For every identity in the collection, a \<open>POST /signup\<close>
  with that identity, when the lookup reaches the database, renders the signup
  form again, inserts nothing and leaves the session as it was; the error shown
  is the duplicate-email error when the form passes validation, and the first
  validation message when it does not.
\<close>

theorem signup_duplicate_email:
  assumes "body_email x = Some a"
    and "find (\<lambda>u. email u = a) (usersCollection x) = Some u"
    and "findOne_ok e"
  shows "\<exists>x'. post_signup e x = Responded x' \<and>
           usersCollection x' = usersCollection x \<and>
           req_session x' = req_session x \<and>
           statusCode x' = statusCode x \<and>
           response x' = Some (Render ''signup''
             [(''title'', JStr ''Sign Up''), (''session'', js_session (req_session x)),
              (''error'', JStr (case schema_validate e x of
                                  Inl msg \<Rightarrow> msg
                                | Inr v \<Rightarrow> ''Email already in use''))])"
proof (cases "schema_validate e x")
  case (Inl msg)
  then show ?thesis
    by (simp add: post_signup_def signup_error_def render_def)
next
  case (Inr v)
  obtain n b p where v: "v = (n, b, p)"
    by (cases v)
  from Inr v schema_validate_Inr [of e x n b p] assms(1) have "b = a"
    by simp
  with Inr v assms show ?thesis
    by (simp add: post_signup_def signup_error_def render_def findOne_def)
qed

theorem signup_duplicate_email_witness:
  "body_email (incoming server1 ''new'' dup_form) = Some ''a@x.com'' \<and>
   find (\<lambda>u. email u = ''a@x.com'') (usersCollection (incoming server1 ''new'' dup_form))
     = Some alice \<and>
   findOne_ok test_env \<and>
   schema_validate test_env (incoming server1 ''new'' dup_form)
     = Inr (''A2'', ''a@x.com'', ''other'') \<and>
   (\<exists>x'. post_signup test_env (incoming server1 ''new'' dup_form) = Responded x' \<and>
      usersCollection x' = [alice, root] \<and>
      req_session x' = Some empty_session \<and>
      response x' = Some (Render ''signup''
        [(''title'', JStr ''Sign Up''), (''session'', JSession empty_session),
         (''error'', JStr ''Email already in use'')]))"
proof -
  have h1: "body_email (incoming server1 ''new'' dup_form) = Some ''a@x.com''"
    by (simp add: incoming_def dup_form_def)
  have h2: "find (\<lambda>u. email u = ''a@x.com'')
              (usersCollection (incoming server1 ''new'' dup_form)) = Some alice"
    by (simp add: incoming_def server1_def alice_def)
  have h3: "findOne_ok test_env"
    by (simp add: test_env_def)
  have v: "schema_validate test_env (incoming server1 ''new'' dup_form)
             = Inr (''A2'', ''a@x.com'', ''other'')"
    by (simp add: validate_defs incoming_def dup_form_def test_env_def)
  have s: "req_session (incoming server1 ''new'' dup_form) = Some empty_session"
    by (simp add: server_defs server1_def)
  have c: "usersCollection (incoming server1 ''new'' dup_form) = [alice, root]"
    by (simp add: incoming_def server1_def)
  from signup_duplicate_email [OF h1 h2 h3] v s c
  have "\<exists>x'. post_signup test_env (incoming server1 ''new'' dup_form) = Responded x' \<and>
      usersCollection x' = [alice, root] \<and>
      req_session x' = Some empty_session \<and>
      response x' = Some (Render ''signup''
        [(''title'', JStr ''Sign Up''), (''session'', JSession empty_session),
         (''error'', JStr ''Email already in use'')])"
    by (auto simp: js_session_def)
  with h1 h2 h3 v show ?thesis
    by blast
qed

text \<open>
  Claim C6.  For every user id present in the collection, setting the role to
  admin and then to user under that id leaves the document found under the id
  with the role user and otherwise as it was; and \<open>GET /promote/:id\<close>
  followed by \<open>GET /demote/:id\<close>, requested by an authenticated session, with
  an id that \<open>ObjectId\<close> accepts and updates that reach the database, perform
  exactly these two operations on the collection.
\<close>

theorem promote_then_demote_role_user:
  assumes "find_by_id (users sv) i = Some u"
  shows "find_by_id (set_user_type i ''user'' (set_user_type i ''admin'' (users sv))) i
           = Some (u\<lparr>user_type := ''user''\<rparr>) \<and>
         (authenticated (session_get (sessions sv) t) \<and>
          parse_ObjectId e1 (form_id f1) = Some i \<and> updateOne_ok e1 \<and>
          parse_ObjectId e2 (form_id f2) = Some i \<and> updateOne_ok e2 \<longrightarrow>
          users (fst (serve e2 (fst (serve e1 sv t GET_promote f1)) t GET_demote f2))
            = set_user_type i ''user'' (set_user_type i ''admin'' (users sv)) \<and>
          find_by_id
            (users (fst (serve e2 (fst (serve e1 sv t GET_promote f1)) t GET_demote f2))) i
            = Some (u\<lparr>user_type := ''user''\<rparr>))"
proof -
  have "find_by_id (set_user_type i ''admin'' (users sv)) i = Some (u\<lparr>user_type := ''admin''\<rparr>)"
    using assms by (rule find_by_id_set_user_type)
  then have "find_by_id (set_user_type i ''user'' (set_user_type i ''admin'' (users sv))) i
               = Some (u\<lparr>user_type := ''admin'', user_type := ''user''\<rparr>)"
    by (rule find_by_id_set_user_type)
  then have store: "find_by_id (set_user_type i ''user'' (set_user_type i ''admin'' (users sv))) i
               = Some (u\<lparr>user_type := ''user''\<rparr>)"
    by simp
  have routes: "users (fst (serve e2 (fst (serve e1 sv t GET_promote f1)) t GET_demote f2))
            = set_user_type i ''user'' (set_user_type i ''admin'' (users sv))"
    if auth: "authenticated (session_get (sessions sv) t)"
      and p1: "parse_ObjectId e1 (form_id f1) = Some i" and u1: "updateOne_ok e1"
      and p2: "parse_ObjectId e2 (form_id f2) = Some i" and u2: "updateOne_ok e2"
  proof -
    let ?sv1 = "fst (serve e1 sv t GET_promote f1)"
    have sv1: "?sv1 = \<lparr>users = set_user_type i ''admin'' (users sv),
                        sessions = (sessions sv)(t \<mapsto> session_get (sessions sv) t)\<rparr>"
      using auth p1 u1 by (rule serve_promote(1))
    have "authenticated (session_get (sessions ?sv1) t)"
      using auth by (simp add: sv1 session_get_put_same)
    then have "fst (serve e2 ?sv1 t GET_demote f2) =
            \<lparr>users = set_user_type i ''user'' (users ?sv1),
             sessions = (sessions ?sv1)(t \<mapsto> session_get (sessions ?sv1) t)\<rparr>"
      using p2 u2 by (rule serve_demote(1))
    then show ?thesis
      by (simp add: sv1)
  qed
  from store routes show ?thesis
    by simp
qed

theorem promote_then_demote_role_user_witness:
  "find_by_id (users server1) 1 = Some alice \<and>
   authenticated (session_get (sessions server1) ''adm'') \<and>
   parse_ObjectId test_env (form_id id1_form) = Some 1 \<and>
   updateOne_ok test_env \<and>
   find_by_id (users (fst (serve test_env
       (fst (serve test_env server1 ''adm'' GET_promote id1_form))
       ''adm'' GET_demote id1_form))) 1 = Some (alice\<lparr>user_type := ''user''\<rparr>)"
proof -
  have h1: "find_by_id (users server1) 1 = Some alice"
    by (simp add: server1_def find_by_id_def alice_def)
  have h2: "authenticated (session_get (sessions server1) ''adm'')"
    by (simp add: server1_def root_session_def session_get_def)
  have h3: "parse_ObjectId test_env (form_id id1_form) = Some 1"
    by (simp add: test_env_def id1_form_def)
  have h4: "updateOne_ok test_env"
    by (simp add: test_env_def)
  from promote_then_demote_role_user [OF h1, of "''adm''" test_env id1_form test_env id1_form]
    h1 h2 h3 h4
  show ?thesis by simp
qed

text \<open>
  Claim C7.  For every token, after \<open>GET /logout\<close> nothing is stored under the
  token, a get on the token answers the unauthenticated default state, and a
  later request with the token is treated as unauthenticated (\<open>GET /members\<close>
  redirects to \<open>/login\<close>); the logout itself is answered by a redirect to
  \<open>/\<close>.
\<close>

theorem logout_destroys_session:
  "sessions (fst (serve e sv t GET_logout f)) t = None \<and>
   session_get (sessions (fst (serve e sv t GET_logout f))) t = empty_session \<and>
   authenticated empty_session = False \<and>
   client_sees (snd (serve e sv t GET_logout f)) = Some (302, Redirect ''/'') \<and>
   app e' GET_members (incoming (fst (serve e sv t GET_logout f)) t f')
     = Responded (redirect ''/login'' (incoming (fst (serve e sv t GET_logout f)) t f'))"
  by (simp add: server_defs get_logout_def isAuthenticated_def response_defs)

text \<open>
  Claim C8, evaluated on the program.  The claim says that every storage or
  hashing failure in a route ends in a rendered response with the generic
  message.  When the lookup fails during \<open>POST /signup\<close> the exception leaves
  the handler and the handler writes no response; the same failure during
  \<open>POST /login\<close> is caught and the generic message is rendered.
\<close>

theorem signup_storage_failure_not_caught:
  "app (test_env\<lparr>findOne_ok := False\<rparr>) POST_signup (incoming server1 ''new'' fresh_form)
     = Thrown StorageError (incoming server1 ''new'' fresh_form) \<and>
   client_sees (app (test_env\<lparr>findOne_ok := False\<rparr>) POST_signup
                  (incoming server1 ''new'' fresh_form)) = None \<and>
   client_sees (app (test_env\<lparr>findOne_ok := False\<rparr>) POST_login
                  (incoming server1 ''new'' alice_login_form))
     = Some (200, Render ''login''
         [(''title'', JStr ''Login''), (''session'', JSession empty_session),
          (''error'', JStr ''Something went wrong. Try again.''),
          (''email'', JStr ''a@x.com'')])"
  by (simp add: response_defs post_signup_def post_login_def collection_defs validate_defs
      server_defs example_defs)

text \<open>
  Claim C9.  A session that has been issued keeps every field it has when a
  role is changed through \<open>GET /promote/:id\<close> or \<open>GET /demote/:id\<close>,
  whoever requests the change and whatever it does to the collection: name,
  role and user id in the session are the ones copied at login.
\<close>

theorem role_change_keeps_issued_sessions:
  assumes "sessions sv t' = Some s"
  shows "sessions (fst (serve e sv t GET_promote f)) t' = Some s \<and>
         sessions (fst (serve e sv t GET_demote f)) t' = Some s"
  using assms by (simp add: sessions_serve_role_route)

theorem role_change_keeps_issued_sessions_witness:
  "sessions server1 ''tok'' = Some alice_session \<and>
   users (fst (serve test_env server1 ''adm'' GET_promote id1_form))
     = [alice\<lparr>user_type := ''admin''\<rparr>, root] \<and>
   sessions (fst (serve test_env server1 ''adm'' GET_promote id1_form)) ''tok''
     = Some alice_session \<and>
   session_user_type alice_session = Some ''user''"
proof -
  have h: "sessions server1 ''tok'' = Some alice_session"
    by (simp add: server1_def)
  have u: "users (fst (serve test_env server1 ''adm'' GET_promote id1_form))
             = [alice\<lparr>user_type := ''admin''\<rparr>, root]"
    by (simp add: response_defs gate_defs get_promote_def collection_defs server_defs
        example_defs)
  have r: "session_user_type alice_session = Some ''user''"
    by (simp add: alice_session_def)
  from role_change_keeps_issued_sessions [OF h, of test_env "''adm''" id1_form] h u r
  show ?thesis by simp
qed

text \<open>
  Claim C10, as stated, fails.  It says that the session resulting from a
  successful \<open>POST /signup\<close> does not store the user identifier.  Alice is
  logged in, so her session stores her id 1; she posts the signup form for a new
  email.  The signup succeeds, and the resulting session has the new name and
  still the user id 1.
\<close>

theorem signup_keeps_user_id_counterexample:
  "session_get (sessions server1) ''tok'' = alice_session \<and>
   client_sees (snd (serve test_env server1 ''tok'' POST_signup fresh_form))
     = Some (302, Redirect ''/members'') \<and>
   users (fst (serve test_env server1 ''tok'' POST_signup fresh_form)) = [alice, root, bob] \<and>
   sessions (fst (serve test_env server1 ''tok'' POST_signup fresh_form)) ''tok''
     = Some \<lparr>authenticated = True, session_name = Some ''B'',
             session_user_type = Some ''user'', user_id = Some 1\<rparr>"
  by (simp add: response_defs post_signup_def collection_defs validate_defs server_defs
      example_defs)

text \<open>
  Claim C10, amended.  A successful \<open>POST /signup\<close> sets in the session the
  authenticated flag, the display name and the role user, and nothing else: the
  user identifier stays what it was, absent in a session that has not logged
  in.  Over all routes, a response that leaves the session with another user
  identifier than before is the redirect of a successful \<open>POST /login\<close>.
\<close>

theorem signup_sets_three_session_fields:
  assumes "req_session x = Some s"
  shows "(\<forall>x'. post_signup e x = Responded x' \<and> response x' = Some (Redirect ''/members'') \<longrightarrow>
            (\<exists>n. body_name x = Some n \<and>
                 req_session x' = Some (s\<lparr>authenticated := True, session_name := Some n,
                                          session_user_type := Some ''user''\<rparr>))) \<and>
         (\<forall>r y s'. app e r x = Responded y \<and> req_session y = Some s' \<and>
                    user_id s' \<noteq> user_id s \<longrightarrow>
            r = POST_login \<and> response y = Some (Redirect ''/members''))"
  using assms post_signup_success user_id_written_by_login_only by blast

theorem signup_sets_three_session_fields_witness:
  "req_session (incoming server_start ''new'' fresh_form) = Some empty_session \<and>
   post_signup test_env (incoming server_start ''new'' fresh_form)
     = Responded ((incoming server_start ''new'' fresh_form)
         \<lparr>req_session := Some \<lparr>authenticated = True, session_name = Some ''B'',
                                session_user_type = Some ''user'', user_id = None\<rparr>,
          statusCode := 302, response := Some (Redirect ''/members''),
          usersCollection := [alice, root, bob]\<rparr>) \<and>
   body_name (incoming server_start ''new'' fresh_form) = Some ''B'' \<and>
   req_session (incoming server_start ''new'' alice_login_form) = Some empty_session \<and>
   app test_env POST_login (incoming server_start ''new'' alice_login_form)
     = Responded ((incoming server_start ''new'' alice_login_form)
         \<lparr>req_session := Some alice_session,
          statusCode := 302, response := Some (Redirect ''/members'')\<rparr>) \<and>
   user_id alice_session \<noteq> user_id empty_session"
proof -
  let ?x = "incoming server_start ''new'' fresh_form"
  let ?x' = "?x\<lparr>req_session := Some \<lparr>authenticated = True, session_name = Some ''B'',
                                session_user_type = Some ''user'', user_id = None\<rparr>,
          statusCode := 302, response := Some (Redirect ''/members''),
          usersCollection := [alice, root, bob]\<rparr>"
  let ?l = "incoming server_start ''new'' alice_login_form"
  let ?l' = "?l\<lparr>req_session := Some alice_session,
          statusCode := 302, response := Some (Redirect ''/members'')\<rparr>"
  have h: "req_session ?x = Some empty_session"
    by (simp add: server_defs server_start_def)
  have p: "post_signup test_env ?x = Responded ?x'"
    by (simp add: response_defs post_signup_def collection_defs validate_defs server_defs
        example_defs)
  have r: "response ?x' = Some (Redirect ''/members'')"
    by simp
  from signup_sets_three_session_fields [OF h, of test_env] p r
  have "\<exists>n. body_name ?x = Some n \<and>
          req_session ?x' = Some (empty_session\<lparr>authenticated := True, session_name := Some n,
                                          session_user_type := Some ''user''\<rparr>)"
    by blast
  then have n: "body_name ?x = Some ''B''"
    by (auto simp: empty_session_def)
  have hl: "req_session ?l = Some empty_session"
    by (simp add: server_defs server_start_def)
  have pl: "app test_env POST_login ?l = Responded ?l'"
    by (simp add: response_defs post_login_def collection_defs server_defs example_defs)
  have d: "user_id alice_session \<noteq> user_id empty_session"
    by (simp add: alice_session_def empty_session_def)
  from h p n hl pl d show ?thesis
    by simp
qed

end
